theory Spec2Isabelle
  imports Main
begin

section \<open>The category page of the lighting catalogue\<close>

text \<open>
  The development embeds \<^verbatim>\<open>src/app/products/category/page.jsx\<close>: the module
  constant \<^verbatim>\<open>lightingProducts\<close>, the two pieces of component state of
  \<^verbatim>\<open>Category\<close> (\<^verbatim>\<open>filters\<close> and \<^verbatim>\<open>showFilters\<close>), the one
  handler the component defines (\<^verbatim>\<open>toggleFilters\<close>), the events the rendered markup can
  receive, the check marks of its uncontrolled checkboxes, and the part of the rendered
  output that depends on data: the drawer position, the two filter panels, the results
  count and the product grid.
\<close>

subsection \<open>Static data\<close>

text \<open>
  A catalogue entry is the object literal \<^verbatim>\<open>{ name: ..., image: ... }\<close>. The field
  \<^verbatim>\<open>image\<close> is called \<open>image_url\<close> here.
\<close>

record product =
  name :: string
  image_url :: string

definition placeholder_png :: string where
  "placeholder_png =
     ''https://png.pngtree.com/element_pic/16/12/06/5d79b5dd066400e188713f7dd417a3f4.png''"

definition lightingProducts :: "product list" where
  "lightingProducts =
     [\<lparr>name = ''Spot Down Series'', image_url = placeholder_png\<rparr>,
      \<lparr>name = ''Tracks System'', image_url = placeholder_png\<rparr>,
      \<lparr>name = ''Modular Series'', image_url = placeholder_png\<rparr>,
      \<lparr>name = ''Panel & General Lighting'', image_url = placeholder_png\<rparr>,
      \<lparr>name = ''Pendant Series'', image_url = placeholder_png\<rparr>,
      \<lparr>name = ''Ceiling Surface Series'', image_url = placeholder_png\<rparr>,
      \<lparr>name = ''Profile Series'', image_url = placeholder_png\<rparr>]"

text \<open>
  A filter group is a heading followed by the array literal whose items are mapped to
  checkboxes. The mobile panel (lines 44 to 63) and the desktop panel (lines 68 to 87)
  spell out the same three headings and the same three arrays.
\<close>

record filterGroup =
  label :: string
  options :: "string list"

definition filterGroups :: "filterGroup list" where
  "filterGroups =
     [\<lparr>label = ''Mounting type'',
       options = [''Ceiling recessed'', ''Recessed Suspended'', ''Surface Mounted'',
                  ''Suspended'', ''Surface Suspended Recessed'']\<rparr>,
      \<lparr>label = ''Light distribution'',
       options = [''A10-A32 wide 100% direct'', ''A40-A44 medium 100% direct'',
                  ''A50-A80 narrow 100% direct'', ''B41-B63 narrow direct'']\<rparr>,
      \<lparr>label = ''Lamp Type'',
       options = [''LED'', ''CONLGB'']\<rparr>]"

subsection \<open>Component state\<close>

text \<open>
  \<^verbatim>\<open>const [filters, setFilters] = useState({})\<close> and
  \<^verbatim>\<open>const [showFilters, setShowFilters] = useState(false)\<close>. The object held in
  \<^verbatim>\<open>filters\<close> is a dictionary from group label to the selected options of that
  group; a label that is not a key has nothing selected.
\<close>

record category_state =
  filters :: "string \<rightharpoonup> string set"
  showFilters :: bool

definition initial_state :: category_state where
  "initial_state = \<lparr>filters = Map.empty, showFilters = False\<rparr>"

text \<open>
  The selected set of a group in a state. The component itself never reads
  \<^verbatim>\<open>filters\<close>; this is the lookup with the default of an absent key.
\<close>

definition selected :: "category_state \<Rightarrow> string \<Rightarrow> string set" where
  "selected s g = (case filters s g of None \<Rightarrow> {} | Some opts \<Rightarrow> opts)"

subsection \<open>Handlers and events\<close>

text \<open>
  \<^verbatim>\<open>const toggleFilters = () => setShowFilters(prev => !prev)\<close>
\<close>

definition toggleFilters :: "category_state \<Rightarrow> category_state" where
  "toggleFilters s = s\<lparr>showFilters := \<not> showFilters s\<rparr>"

text \<open>
  The markup has two kinds of interactive element that stay on the page: the filter icon
  button, with \<^verbatim>\<open>onClick={toggleFilters}\<close>, and the checkboxes of the two panels,
  \<^verbatim>\<open><input type="checkbox" className="mr-2" />\<close>, which carry no
  \<^verbatim>\<open>onChange\<close>, no \<^verbatim>\<open>checked\<close> and no other handler. A click on a
  checkbox therefore runs no code of the component and leaves the two hooks as they
  are. The component sets no timer and registers no effect.

  \<open>handle\<close> is the effect of an event on the two hooks. The check marks of the
  checkboxes, which are not held in a hook, are added in the next subsection.
\<close>

datatype surface = MobileDrawer | DesktopSidebar

datatype event =
    FilterIconClick
  | CheckboxClick surface string string

fun handle :: "event \<Rightarrow> category_state \<Rightarrow> category_state" where
  "handle FilterIconClick s = toggleFilters s"
| "handle (CheckboxClick panel g item) s = s"

text \<open>The state after a sequence of events, oldest first.\<close>

fun run :: "category_state \<Rightarrow> event list \<Rightarrow> category_state" where
  "run s [] = s"
| "run s (e # es) = run (handle e s) es"

subsection \<open>The page: hooks and check marks\<close>

text \<open>
  The inputs are uncontrolled: each \<^verbatim>\<open><input type="checkbox" />\<close> element keeps
  its own \<^verbatim>\<open>checked\<close> property, false when the element is created (the markup
  gives no \<^verbatim>\<open>defaultChecked\<close>), and a click on the element negates it. Both
  panels are always part of the rendered tree (they are hidden by style classes only),
  and the labels are keyed by their item, so a re-render keeps the elements and their
  marks. A checkbox is identified by its panel, the heading of its group and its item;
  the state of the page is the two hooks together with the set of checkboxes that are
  checked.
\<close>

type_synonym checkbox = "surface \<times> string \<times> string"

record page_state =
  hooks :: category_state
  checked :: "checkbox set"


text \<open>
  Each panel renders one checkbox for each item of each of the three arrays, and no
  other: there is a checkbox for \<open>item\<close> under the heading \<open>g\<close> exactly when a group with
  that heading lists the item.
\<close>

definition has_checkbox :: "string \<Rightarrow> string \<Rightarrow> bool" where
  "has_checkbox g item =
     list_ex (\<lambda>grp. label grp = g \<and> item \<in> set (options grp)) filterGroups"

text \<open>A click negates the \<^verbatim>\<open>checked\<close> property of the element clicked.\<close>

definition toggle_mark :: "checkbox \<Rightarrow> checkbox set \<Rightarrow> checkbox set" where
  "toggle_mark c marks = (if c \<in> marks then marks - {c} else insert c marks)"

text \<open>
  The effect of an event on the page. A click can only reach an element the page has;
  an event that names a checkbox the page does not render has no effect.
\<close>

fun page_handle :: "event \<Rightarrow> page_state \<Rightarrow> page_state" where
  "page_handle FilterIconClick p = p\<lparr>hooks := toggleFilters (hooks p)\<rparr>"
| "page_handle (CheckboxClick panel g item) p =
     (if has_checkbox g item
      then p\<lparr>checked := toggle_mark (panel, g, item) (checked p)\<rparr>
      else p)"


subsection \<open>Rendering\<close>

text \<open>
  \<^verbatim>\<open>animate={{ x: showFilters ? 0 : '-100%' }}\<close>: the horizontal position of the
  mobile panel.
\<close>

datatype drawer_x = X_0 | X_minus_100_percent

text \<open>
  One grid cell:
  \<^verbatim>\<open><a href="/products/category/objects/" key={index}>\<close> around
  \<^verbatim>\<open><img src={product.image} alt={product.name} />\<close> and
  \<^verbatim>\<open><h3>{product.name}</h3>\<close>.
\<close>

record card =
  card_key :: nat
  card_href :: string
  img_src :: string
  img_alt :: string
  heading :: string

definition productCard :: "nat \<Rightarrow> product \<Rightarrow> card" where
  "productCard index p =
     \<lparr>card_key = index, card_href = ''/products/category/objects/'',
      img_src = image_url p, img_alt = name p, heading = name p\<rparr>"

record page_view =
  mobile_x :: drawer_x
  mobile_panel :: "filterGroup list"
  desktop_panel :: "filterGroup list"
  results :: nat
  grid :: "card list"

text \<open>
  The render function, with the catalogue as a parameter: the results line shows the
  length of the catalogue, and the grid is the catalogue mapped, with its indices, to
  cards. \<open>Category\<close> is the component as written, over \<open>lightingProducts\<close>.
\<close>

definition CategoryView :: "product list \<Rightarrow> category_state \<Rightarrow> page_view" where
  "CategoryView catalog s =
     \<lparr>mobile_x = (if showFilters s then X_0 else X_minus_100_percent),
      mobile_panel = filterGroups,
      desktop_panel = filterGroups,
      results = length catalog,
      grid = map (\<lambda>(index, p). productCard index p) (enumerate 0 catalog)\<rparr>"

definition Category :: "category_state \<Rightarrow> page_view" where
  "Category s = CategoryView lightingProducts s"

text \<open>The product a card shows, and the list of products a rendered page shows.\<close>

definition shownProduct :: "card \<Rightarrow> product" where
  "shownProduct c = \<lparr>name = img_alt c, image_url = img_src c\<rparr>"

definition shownProducts :: "page_view \<Rightarrow> product list" where
  "shownProducts v = map shownProduct (grid v)"

subsection \<open>Predicates on states and traces\<close>

text \<open>No filter selected: every group of the page has an empty selected set.\<close>

definition no_selection :: "category_state \<Rightarrow> bool" where
  "no_selection s = list_all (\<lambda>grp. selected s (label grp) = {}) filterGroups"

text \<open>
  The selection refers only to options its group lists: for each group of the page, the
  selected set is a subset of the group's options.
\<close>

definition valid_selection :: "category_state \<Rightarrow> bool" where
  "valid_selection s =
     list_all (\<lambda>grp. selected s (label grp) \<subseteq> set (options grp)) filterGroups"

text \<open>The number of clicks on the filter icon in a sequence of events.\<close>

definition iconClicks :: "event list \<Rightarrow> nat" where
  "iconClicks es = length (filter (\<lambda>e. e = FilterIconClick) es)"

text \<open>Two sample states whose selection is not empty.\<close>

definition led_selected :: category_state where
  "led_selected = \<lparr>filters = [''Lamp Type'' \<mapsto> {''LED''}], showFilters = False\<rparr>"

definition halogen_selected :: category_state where
  "halogen_selected = \<lparr>filters = [''Lamp Type'' \<mapsto> {''Halogen''}], showFilters = True\<rparr>"

section \<open>Properties\<close>

subsection \<open>Helper facts\<close>

lemma handle_filters: "filters (handle e s) = filters s"
  by (cases e) (simp_all add: toggleFilters_def)

lemma run_filters: "filters (run s es) = filters s"
  by (induction es arbitrary: s) (simp_all add: handle_filters)

lemma shownProduct_productCard: "shownProduct (productCard i p) = p"
  by (simp add: shownProduct_def productCard_def)

lemma shownProducts_CategoryView: "shownProducts (CategoryView catalog s) = catalog"
proof -
  have "map shownProduct (map (\<lambda>(index, p). productCard index p) (enumerate n catalog)) = catalog"
    for n
    by (induction catalog arbitrary: n) (simp_all add: shownProduct_productCard)
  then show ?thesis
    by (simp add: shownProducts_def CategoryView_def)
qed

lemma run_showFilters: "showFilters (run s es) = (showFilters s \<noteq> odd (iconClicks es))"
proof (induction es arbitrary: s)
  case Nil
  show ?case by (simp add: iconClicks_def)
next
  case (Cons e es)
  show ?case
  proof (cases e)
    case FilterIconClick
    with Cons show ?thesis
      by (auto simp: iconClicks_def toggleFilters_def)
  next
    case (CheckboxClick panel g item)
    with Cons show ?thesis
      by (simp add: iconClicks_def)
  qed
qed

lemma selected_handle: "selected (handle e s) g = selected s g"
  by (simp add: selected_def handle_filters)

lemma valid_selection_handle: "valid_selection (handle e s) = valid_selection s"
  by (simp add: valid_selection_def selected_handle)

lemma valid_selection_run: "valid_selection (run s es) = valid_selection s"
  by (induction es arbitrary: s) (simp_all add: valid_selection_handle)

lemma valid_selection_initial: "valid_selection initial_state"
  by (simp add: valid_selection_def selected_def initial_state_def filterGroups_def)

text \<open>
  The predicate \<open>valid_selection\<close> does separate states: a state that has the option
  \<open>Halogen\<close> selected under \<open>Lamp Type\<close>, which lists only \<open>LED\<close> and \<open>CONLGB\<close>, does
  not satisfy it.
\<close>

lemma valid_selection_rejects_unlisted_option: "\<not> valid_selection halogen_selected"
  by (simp add: valid_selection_def selected_def halogen_selected_def filterGroups_def)

lemma hooks_page_handle: "hooks (page_handle e p) = handle e (hooks p)"
  by (cases e) simp_all

lemma checked_page_handle_icon: "checked (page_handle FilterIconClick p) = checked p"
  by simp




lemma length_grid_CategoryView: "length (grid (CategoryView catalog s)) = length catalog"
  by (simp add: CategoryView_def)

lemma results_CategoryView: "results (CategoryView catalog s) = length catalog"
  by (simp add: CategoryView_def)

lemma length_lightingProducts: "length lightingProducts = 7"
  by (simp add: lightingProducts_def)

subsection \<open>The drawer toggle\<close>

text \<open>
  C4. \<open>toggleFilters\<close> is its own inverse: one call negates \<open>showFilters\<close>, two calls in
  a row give back the state they started from.
\<close>

theorem toggleFilters_involution:
  "showFilters (toggleFilters s) = (\<not> showFilters s)
   \<and> toggleFilters (toggleFilters s) = s"
  by (simp add: toggleFilters_def)

text \<open>
  C5. The drawer toggle never changes \<open>filters\<close>, a click on a checkbox never changes
  \<open>showFilters\<close>, and opening then closing the drawer (two calls of \<open>toggleFilters\<close>)
  leaves \<open>filters\<close> equal to what it was before the cycle. The same holds of the check
  marks on the page: a click on the filter icon leaves every mark as it is, also over an
  open and close cycle, and a click on a checkbox leaves \<open>showFilters\<close> as it is.
\<close>

theorem drawer_and_selection_independent:
  "filters (toggleFilters s) = filters s
   \<and> showFilters (handle (CheckboxClick panel g item) s) = showFilters s
   \<and> filters (toggleFilters (toggleFilters s)) = filters s
   \<and> checked (page_handle FilterIconClick p) = checked p
   \<and> checked (page_handle FilterIconClick (page_handle FilterIconClick p)) = checked p
   \<and> showFilters (hooks (page_handle (CheckboxClick panel g item) p)) = showFilters (hooks p)"
  by (simp add: toggleFilters_def)

text \<open>
  C6. The drawer is a machine with the two states closed (\<open>showFilters\<close> false, panel at
  \<open>-100%\<close>) and open (\<open>showFilters\<close> true, panel at \<open>0\<close>). It starts closed; the
  rendered position is always one of the two; an event changes \<open>showFilters\<close> exactly
  when it is a click on the filter icon, and then it negates it; so after any sequence
  of events the drawer is open exactly when the number of icon clicks is odd.
\<close>

theorem drawer_two_state_machine:
  "showFilters initial_state = False
   \<and> mobile_x (Category initial_state) = X_minus_100_percent
   \<and> mobile_x (CategoryView catalog s) \<in> {X_0, X_minus_100_percent}
   \<and> (mobile_x (CategoryView catalog s) = X_0) = showFilters s
   \<and> ((showFilters (handle e s) \<noteq> showFilters s) = (e = FilterIconClick))
   \<and> showFilters (handle FilterIconClick s) = (\<not> showFilters s)
   \<and> showFilters (run initial_state es) = odd (iconClicks es)"
proof -
  have "(showFilters (handle e s) \<noteq> showFilters s) = (e = FilterIconClick)"
    by (cases e) (simp_all add: toggleFilters_def)
  moreover have "showFilters (run initial_state es) = odd (iconClicks es)"
    by (simp add: run_showFilters initial_state_def)
  ultimately show ?thesis
    by (simp add: initial_state_def Category_def CategoryView_def toggleFilters_def)
qed

subsection \<open>The checkboxes and the selection\<close>



text \<open>
  C8. The selection never refers to an option its group does not list: the initial
  state satisfies \<open>valid_selection\<close>, every event keeps it, and so every state reached
  from the initial one by a sequence of events satisfies it.
\<close>

theorem valid_selection_invariant:
  "valid_selection initial_state
   \<and> (valid_selection s \<longrightarrow> valid_selection (handle e s))
   \<and> valid_selection (run initial_state es)"
  by (simp add: valid_selection_handle valid_selection_run valid_selection_initial)

theorem valid_selection_invariant_witness:
  "valid_selection led_selected
   \<and> valid_selection (handle FilterIconClick led_selected)
   \<and> valid_selection
       (run initial_state
          [FilterIconClick, CheckboxClick DesktopSidebar ''Lamp Type'' ''LED'', FilterIconClick])"
proof -
  have h: "valid_selection led_selected"
    by (simp add: valid_selection_def selected_def led_selected_def filterGroups_def)
  show ?thesis
    using h valid_selection_invariant [of led_selected FilterIconClick
        "[FilterIconClick, CheckboxClick DesktopSidebar ''Lamp Type'' ''LED'', FilterIconClick]"]
    by blast
qed

text \<open>
  C10. No event changes \<open>filters\<close>. In every state reached from the initial one
  \<open>filters\<close> is the empty mapping, and the results count of the rendered page equals the
  length of the catalogue and the number of rendered cards, which is 7.
\<close>

theorem filters_never_updated:
  "filters (handle e s) = filters s
   \<and> filters (run initial_state es) = Map.empty
   \<and> results (Category (run initial_state es)) = length lightingProducts
   \<and> length (grid (Category (run initial_state es))) = results (Category (run initial_state es))
   \<and> results (Category (run initial_state es)) = 7"
  by (simp add: handle_filters run_filters initial_state_def Category_def
      results_CategoryView length_grid_CategoryView length_lightingProducts)

subsection \<open>The product grid\<close>

text \<open>
  C2. For every catalogue, when every filter group has an empty selected set, the
  rendered page shows the whole catalogue, in the order of the catalogue.
\<close>

theorem no_selection_shows_catalog:
  "no_selection s \<Longrightarrow> shownProducts (CategoryView catalog s) = catalog"
  by (rule shownProducts_CategoryView)

theorem no_selection_shows_catalog_witness:
  "no_selection initial_state
   \<and> shownProducts (CategoryView [\<lparr>name = ''B'', image_url = ''b.png''\<rparr>,
                                  \<lparr>name = ''A'', image_url = ''a.png''\<rparr>] initial_state)
       = [\<lparr>name = ''B'', image_url = ''b.png''\<rparr>, \<lparr>name = ''A'', image_url = ''a.png''\<rparr>]"
proof -
  have h: "no_selection initial_state"
    by (simp add: no_selection_def selected_def initial_state_def filterGroups_def)
  show ?thesis
    using h no_selection_shows_catalog [OF h] by simp
qed

text \<open>
  C3. The rendered product list does not depend on \<open>filters\<close>: for every selection the
  page shows the same products as with the empty selection, namely the whole catalogue;
  the rendered page as a whole is the same. In particular, with \<open>LED\<close> selected under
  \<open>Lamp Type\<close> the page still shows all of \<open>lightingProducts\<close>.
\<close>

theorem shown_products_independent_of_filters:
  "shownProducts (CategoryView catalog (s\<lparr>filters := sel\<rparr>))
     = shownProducts (CategoryView catalog (s\<lparr>filters := Map.empty\<rparr>))
   \<and> shownProducts (CategoryView catalog (s\<lparr>filters := sel\<rparr>)) = catalog
   \<and> CategoryView catalog (s\<lparr>filters := sel\<rparr>) = CategoryView catalog s
   \<and> shownProducts (Category led_selected) = lightingProducts"
  by (simp add: shownProducts_CategoryView Category_def) (simp add: CategoryView_def)

text \<open>
  C7. With the catalogue \<open>lightingProducts\<close> and no filter selected, the page shows
  exactly the seven products in the listed order; the first is named
  \<open>Spot Down Series\<close> and the last \<open>Profile Series\<close>.
\<close>

theorem seven_products_in_listed_order:
  "no_selection s \<Longrightarrow>
     shownProducts (Category s) = lightingProducts
     \<and> length (shownProducts (Category s)) = 7
     \<and> map name (shownProducts (Category s))
         = [''Spot Down Series'', ''Tracks System'', ''Modular Series'',
            ''Panel & General Lighting'', ''Pendant Series'', ''Ceiling Surface Series'',
            ''Profile Series'']
     \<and> name (hd (shownProducts (Category s))) = ''Spot Down Series''
     \<and> name (last (shownProducts (Category s))) = ''Profile Series''"
  by (simp add: Category_def shownProducts_CategoryView) (simp add: lightingProducts_def)

theorem seven_products_in_listed_order_witness:
  "no_selection (toggleFilters initial_state)
   \<and> length (shownProducts (Category (toggleFilters initial_state))) = 7
   \<and> name (hd (shownProducts (Category (toggleFilters initial_state)))) = ''Spot Down Series''
   \<and> name (last (shownProducts (Category (toggleFilters initial_state)))) = ''Profile Series''"
proof -
  have h: "no_selection (toggleFilters initial_state)"
    by (simp add: no_selection_def selected_def initial_state_def toggleFilters_def
        filterGroups_def)
  show ?thesis
    using h seven_products_in_listed_order [OF h] by blast
qed

end
